theory Spec2Isabelle
  imports Complex_Main "HOL-Library.Sublist" "HOL-Library.Multiset"
begin

section \<open>Data model (src/app/App.tsx, lines 6-37)\<close>

text \<open>
  JavaScript strings are sequences of UTF-16 code units. Every string of the program
  that matters here has code units below 256 only, so a string is a \<open>char list\<close> with
  one \<open>char\<close> per code unit (the accented letters of the generated comments are the
  code units 0xE1, 0xED and 0xF3). JavaScript numbers are modelled by \<open>rat\<close> where the
  program divides or reads pointer coordinates, by \<open>int\<close> for the configuration values
  (the program only ever stores integers there) and by \<open>nat\<close> for indices and clock
  readings. A quotient is the exact rational, of which JavaScript's \<open>/\<close> yields the
  nearest double. Record fields carry a prefix, since \<open>id\<close>, \<open>x\<close>, \<open>y\<close> occur in
  several interfaces of the source.
\<close>

datatype ComponentType = Esp8266 | Led | Resistor | Potentiometer

datatype Side = SideLeft | SideRight

record Pin =
  pin_id :: string
  pin_label :: string
  pin_x :: rat
  pin_y :: rat
  pin_side :: Side

text \<open>
  \<open>config?: any\<close>: the objects the program builds are \<open>{ color }\<close>, \<open>{ value }\<close>, \<open>{}\<close>
  and their spreads with a new \<open>value\<close>; an absent property is \<open>None\<close>.
\<close>

record Config =
  cfg_color :: "string option"
  cfg_value :: "int option"

record Component =
  comp_id :: string
  comp_type :: ComponentType
  comp_x :: rat
  comp_y :: rat
  config :: "Config option"
  pins :: "Pin list option"

record Connection =
  conn_id :: string
  fromComponentId :: string
  fromPinId :: string
  toComponentId :: string
  toPinId :: string

record PinConnection =
  pc_componentId :: string
  pc_pinId :: string

record PinLayout =
  pl_id :: string
  pl_label :: string
  pl_offset :: nat

section \<open>The controller's pin table (lines 55-90)\<close>

definition esp8266Pins_left :: "PinLayout list" where
  "esp8266Pins_left =
    [\<lparr>pl_id = ''A0'', pl_label = ''A0'', pl_offset = 0\<rparr>,
     \<lparr>pl_id = ''RST'', pl_label = ''RST'', pl_offset = 1\<rparr>,
     \<lparr>pl_id = ''EN'', pl_label = ''EN'', pl_offset = 2\<rparr>,
     \<lparr>pl_id = ''3V3_L'', pl_label = ''3V3'', pl_offset = 3\<rparr>,
     \<lparr>pl_id = ''GND_L1'', pl_label = ''GND'', pl_offset = 4\<rparr>,
     \<lparr>pl_id = ''CLK'', pl_label = ''CLK'', pl_offset = 5\<rparr>,
     \<lparr>pl_id = ''SD0'', pl_label = ''SD0'', pl_offset = 6\<rparr>,
     \<lparr>pl_id = ''CMD'', pl_label = ''CMD'', pl_offset = 7\<rparr>,
     \<lparr>pl_id = ''SD1'', pl_label = ''SD1'', pl_offset = 8\<rparr>,
     \<lparr>pl_id = ''SD2'', pl_label = ''SD2'', pl_offset = 9\<rparr>,
     \<lparr>pl_id = ''SD3'', pl_label = ''SD3'', pl_offset = 10\<rparr>,
     \<lparr>pl_id = ''RX_L'', pl_label = ''RX'', pl_offset = 11\<rparr>,
     \<lparr>pl_id = ''TX_L'', pl_label = ''TX'', pl_offset = 12\<rparr>,
     \<lparr>pl_id = ''GND_L2'', pl_label = ''GND'', pl_offset = 13\<rparr>,
     \<lparr>pl_id = ''3V3_L2'', pl_label = ''3V3'', pl_offset = 14\<rparr>]"

definition esp8266Pins_right :: "PinLayout list" where
  "esp8266Pins_right =
    [\<lparr>pl_id = ''D0'', pl_label = ''D0'', pl_offset = 0\<rparr>,
     \<lparr>pl_id = ''D1'', pl_label = ''D1'', pl_offset = 1\<rparr>,
     \<lparr>pl_id = ''D2'', pl_label = ''D2'', pl_offset = 2\<rparr>,
     \<lparr>pl_id = ''D3'', pl_label = ''D3'', pl_offset = 3\<rparr>,
     \<lparr>pl_id = ''D4'', pl_label = ''D4'', pl_offset = 4\<rparr>,
     \<lparr>pl_id = ''D5'', pl_label = ''D5'', pl_offset = 5\<rparr>,
     \<lparr>pl_id = ''D6'', pl_label = ''D6'', pl_offset = 6\<rparr>,
     \<lparr>pl_id = ''D7'', pl_label = ''D7'', pl_offset = 7\<rparr>,
     \<lparr>pl_id = ''D8'', pl_label = ''D8'', pl_offset = 8\<rparr>,
     \<lparr>pl_id = ''3V3_R'', pl_label = ''3V3'', pl_offset = 9\<rparr>,
     \<lparr>pl_id = ''GND_R1'', pl_label = ''GND'', pl_offset = 10\<rparr>,
     \<lparr>pl_id = ''RX_R'', pl_label = ''RX'', pl_offset = 11\<rparr>,
     \<lparr>pl_id = ''TX_R'', pl_label = ''TX'', pl_offset = 12\<rparr>,
     \<lparr>pl_id = ''GND_R2'', pl_label = ''GND'', pl_offset = 13\<rparr>,
     \<lparr>pl_id = ''VIN'', pl_label = ''VIN'', pl_offset = 14\<rparr>]"

section \<open>String helpers of the JavaScript runtime\<close>

text \<open>\<open>`${n}`\<close> for a non-negative integer: its decimal digits.\<close>

definition digit_char :: "nat \<Rightarrow> char" where
  "digit_char d = ''0123456789'' ! d"

function show_nat :: "nat \<Rightarrow> string" where
  "show_nat n = (if n < 10 then [digit_char n] else show_nat (n div 10) @ [digit_char (n mod 10)])"
  by pat_completeness auto
termination
  by (relation "measure (\<lambda>n. n)") auto

declare show_nat.simps [simp del]

text \<open>\<open>lines.join('\n')\<close>: the lines with one line feed between neighbours.\<close>

fun join_lines :: "string list \<Rightarrow> string" where
  "join_lines [] = []"
| "join_lines [l] = l"
| "join_lines (l # m # ls) = l @ [CHR 0x0A] @ join_lines (m # ls)"

text \<open>\<open>s.split('_')[0]\<close>: the part of \<open>s\<close> before its first underscore (all of it when it has none).\<close>

definition pinName :: "string \<Rightarrow> string" where
  "pinName espPin = takeWhile (\<lambda>c. c \<noteq> CHR ''_'') espPin"

text \<open>\<open>xs.forEach((x, idx) => out.push(f(x, idx)))\<close>: the pushed values in order.\<close>

definition forEach_idx :: "(nat \<Rightarrow> 'a \<Rightarrow> 'b) \<Rightarrow> 'a list \<Rightarrow> 'b list" where
  "forEach_idx f xs = map (\<lambda>(idx, x). f idx x) (enumerate 0 xs)"

section \<open>generateCode (lines 97-232)\<close>

definition is_esp :: "Component \<Rightarrow> bool" where
  "is_esp c = (comp_type c = Esp8266)"

text \<open>The two predicates handed to \<open>connections.find\<close> (lines 122-125 and 138-141).\<close>

definition led_link :: "Component \<Rightarrow> Component \<Rightarrow> Connection \<Rightarrow> bool" where
  "led_link esp cmp c =
    ((fromComponentId c = comp_id cmp \<and> fromPinId c = ''anode'' \<and> toComponentId c = comp_id esp) \<or>
     (toComponentId c = comp_id cmp \<and> toPinId c = ''anode'' \<and> fromComponentId c = comp_id esp))"

definition pot_link :: "Component \<Rightarrow> Component \<Rightarrow> Connection \<Rightarrow> bool" where
  "pot_link esp cmp c =
    ((fromComponentId c = comp_id cmp \<and> fromPinId c = ''signal'' \<and> toComponentId c = comp_id esp) \<or>
     (toComponentId c = comp_id cmp \<and> toPinId c = ''signal'' \<and> fromComponentId c = comp_id esp))"

text \<open>Lines 129 and 144: the controller's end of the connection found.\<close>

definition espPin :: "Component \<Rightarrow> Connection \<Rightarrow> string" where
  "espPin esp conn = (if fromComponentId conn = comp_id esp then fromPinId conn else toPinId conn)"

text \<open>
  The body of \<open>components.forEach\<close> (lines 119-150), on the pair of the two arrays
  \<open>ledConnections\<close> and \<open>potConnections\<close> of \<open>{compId, pin}\<close> entries.
\<close>

type_synonym Binding = "string \<times> string"

definition resolve_step ::
  "Component \<Rightarrow> Connection list \<Rightarrow> Binding list \<times> Binding list \<Rightarrow> Component \<Rightarrow> Binding list \<times> Binding list" where
  "resolve_step esp connections acc cmp =
    (if comp_type cmp = Led then
       (case find (led_link esp cmp) connections of
          Some conn \<Rightarrow> (fst acc @ [(comp_id cmp, pinName (espPin esp conn))], snd acc)
        | None \<Rightarrow> acc)
     else if comp_type cmp = Potentiometer then
       (case find (pot_link esp cmp) connections of
          Some conn \<Rightarrow> (fst acc, snd acc @ [(comp_id cmp, pinName (espPin esp conn))])
        | None \<Rightarrow> acc)
     else acc)"

definition resolve :: "Component \<Rightarrow> Component list \<Rightarrow> Connection list \<Rightarrow> Binding list \<times> Binding list" where
  "resolve esp components connections = foldl (resolve_step esp connections) ([], []) components"

text \<open>The fixed lines of the three templates; the accented letters are written by code unit.\<close>

definition placeholder :: string where
  "placeholder = ''// Agrega un ESP8266 para comenzar''"

definition header_line :: string where
  "header_line = ''// C'' @ [CHR 0xF3] @ ''digo generado autom'' @ [CHR 0xE1] @ ''ticamente para NodeMCU ESP8266''"

definition read_pot_comment :: string where
  "read_pot_comment = ''  // Leer valor del potenci'' @ [CHR 0xF3] @ ''metro''"

definition idle_comment :: string where
  "idle_comment = ''  // C'' @ [CHR 0xF3] @ ''digo principal aqu'' @ [CHR 0xED]"

definition led_define :: "nat \<Rightarrow> Binding \<Rightarrow> string" where
  "led_define idx led = ''#define LED_PIN_'' @ show_nat (idx + 1) @ '' '' @ snd led"

definition pot_define :: "nat \<Rightarrow> Binding \<Rightarrow> string" where
  "pot_define idx pot = ''#define POT_PIN_'' @ show_nat (idx + 1) @ '' '' @ snd pot"

text \<open>Lines 152-158.\<close>

definition pinDefinitions :: "Binding list \<Rightarrow> Binding list \<Rightarrow> string list" where
  "pinDefinitions ledConnections potConnections =
    forEach_idx led_define ledConnections @ forEach_idx pot_define potConnections"

text \<open>Lines 176-178.\<close>

definition setupCode :: "Binding list \<Rightarrow> string list" where
  "setupCode ledConnections =
    forEach_idx (\<lambda>idx led. ''  pinMode(LED_PIN_'' @ show_nat (idx + 1) @ '', OUTPUT);'') ledConnections"

text \<open>Lines 191-227: the body of \<open>loop\<close>, one of three templates.\<close>

definition loopBody :: "Binding list \<Rightarrow> Binding list \<Rightarrow> string list" where
  \<open>loopBody ledConnections potConnections =
    (if length potConnections > 0 \<and> length ledConnections > 0 then
       [read_pot_comment] @
       forEach_idx (\<lambda>idx pot. ''  potValue = analogRead(POT_PIN_'' @ show_nat (idx + 1) @ '');'') potConnections @
       [''  '',
        ''  // Convertir a rango PWM (0-1023 a 0-255)'',
        ''  brightness = map(potValue, 0, 1023, 0, 255);'',
        ''  '',
        ''  // Controlar intensidad del LED con PWM''] @
       forEach_idx (\<lambda>idx led. ''  analogWrite(LED_PIN_'' @ show_nat (idx + 1) @ '', brightness);'') ledConnections @
       [''  '',
        ''  // Imprimir valores en monitor serial'',
        ''  Serial.print("Potenciometro: ");'',
        ''  Serial.print(potValue);'',
        ''  Serial.print(" | Brillo LED: ");'',
        ''  Serial.println(brightness);'',
        ''  '',
        ''  delay(100);'']
     else if length ledConnections > 0 then
       [''  // Parpadeo simple del LED''] @
       forEach_idx (\<lambda>idx led. ''  digitalWrite(LED_PIN_'' @ show_nat (idx + 1) @ '', HIGH);'') ledConnections @
       [''  delay(500);''] @
       forEach_idx (\<lambda>idx led. ''  digitalWrite(LED_PIN_'' @ show_nat (idx + 1) @ '', LOW);'') ledConnections @
       [''  delay(500);'']
     else
       [idle_comment, ''  delay(100);''])\<close>

text \<open>Lines 107-229: the array \<open>codeLines\<close> once a controller \<open>esp\<close> has been found.\<close>

definition codeLines :: "Component \<Rightarrow> Component list \<Rightarrow> Connection list \<Rightarrow> string list" where
  \<open>codeLines esp components connections =
    (let ledConnections = fst (resolve esp components connections);
         potConnections = snd (resolve esp components connections);
         defs = pinDefinitions ledConnections potConnections
     in [header_line, ''''] @
        (if length defs > 0 then defs @ [''''] else []) @
        (if length potConnections > 0 \<and> length ledConnections > 0
         then [''int potValue = 0;'', ''int brightness = 0;'', ''''] else []) @
        [''void setup() {'', ''  Serial.begin(115200);''] @
        setupCode ledConnections @
        [''  Serial.println("ESP8266 iniciado");'', ''}'', '''', ''void loop() {''] @
        loopBody ledConnections potConnections @
        [''}''])\<close>

text \<open>The text handed to \<open>setCode\<close>.\<close>

definition generateCode :: "Component list \<Rightarrow> Connection list \<Rightarrow> string" where
  "generateCode components connections =
    (case find is_esp components of
       None \<Rightarrow> placeholder
     | Some esp \<Rightarrow> join_lines (codeLines esp components connections))"

section \<open>The simulation effect (lines 650-703)\<close>

text \<open>\<open>components.find(co => co.id === i)?.type\<close>.\<close>

definition typeOfId :: "Component list \<Rightarrow> string \<Rightarrow> ComponentType option" where
  "typeOfId components i = map_option comp_type (find (\<lambda>co. comp_id co = i) components)"

text \<open>The predicate of lines 664-668.\<close>

definition ledToEsp :: "Component list \<Rightarrow> Component \<Rightarrow> Connection \<Rightarrow> bool" where
  "ledToEsp components cmp c =
    ((fromComponentId c = comp_id cmp \<or> toComponentId c = comp_id cmp) \<and>
     (typeOfId components (fromComponentId c) = Some Esp8266 \<or>
      typeOfId components (toComponentId c) = Some Esp8266))"

text \<open>
  \<open>potComp?.config?.value || 512\<close>: \<open>||\<close> takes its right operand when the left one is
  falsy, which \<open>undefined\<close> and the number \<open>0\<close> both are.
\<close>

definition value_or_512 :: "Component option \<Rightarrow> int" where
  "value_or_512 potComp =
    (case potComp of
       None \<Rightarrow> 512
     | Some p \<Rightarrow>
        (case config p of
           None \<Rightarrow> 512
         | Some cfg \<Rightarrow>
            (case cfg_value cfg of
               None \<Rightarrow> 512
             | Some v \<Rightarrow> if v = 0 then 512 else v)))"

text \<open>The body of \<open>connections.forEach\<close> (lines 675-686) on \<open>(hasPotentiometer, potValue)\<close>.\<close>

definition pot_scan_step :: "Component list \<Rightarrow> bool \<times> int \<Rightarrow> Connection \<Rightarrow> bool \<times> int" where
  "pot_scan_step components acc potConn =
    (let fromComp = find (\<lambda>c. comp_id c = fromComponentId potConn) components;
         toComp = find (\<lambda>c. comp_id c = toComponentId potConn) components
     in if (map_option comp_type fromComp = Some Potentiometer \<and> map_option comp_type toComp = Some Esp8266) \<or>
           (map_option comp_type toComp = Some Potentiometer \<and> map_option comp_type fromComp = Some Esp8266)
        then (True,
              value_or_512 (if map_option comp_type fromComp = Some Potentiometer then fromComp else toComp))
        else acc)"

definition pot_scan :: "Component list \<Rightarrow> Connection list \<Rightarrow> bool \<times> int" where
  "pot_scan components connections = foldl (pot_scan_step components) (False, 512) connections"

text \<open>The body of \<open>components.forEach\<close> (lines 661-697) on the object \<open>newStates\<close>.\<close>

definition led_state_step ::
  "Component list \<Rightarrow> Connection list \<Rightarrow> (string \<rightharpoonup> rat) \<Rightarrow> Component \<Rightarrow> (string \<rightharpoonup> rat)" where
  "led_state_step components connections newStates cmp =
    (if comp_type cmp = Led then
       (case find (ledToEsp components cmp) connections of
          Some ledToEspConn \<Rightarrow>
            (if fst (pot_scan components connections)
             then newStates(comp_id cmp \<mapsto> of_int (snd (pot_scan components connections)) / 1023)
             else newStates(comp_id cmp \<mapsto> 1))
        | None \<Rightarrow> newStates)
     else newStates)"

definition updateLedStates :: "Component list \<Rightarrow> Connection list \<Rightarrow> (string \<rightharpoonup> rat)" where
  "updateLedStates components connections =
    foldl (led_state_step components connections) Map.empty components"

text \<open>The effect as a whole: what \<open>ledStates\<close> is set to.\<close>

definition simulation :: "bool \<Rightarrow> Component list \<Rightarrow> Connection list \<Rightarrow> (string \<rightharpoonup> rat)" where
  "simulation isRunning components connections =
    (if \<not> isRunning then Map.empty else updateLedStates components connections)"

section \<open>The component's state, its effects and its handlers\<close>

record AppState =
  st_components :: "Component list"
  st_connections :: "Connection list"
  st_code :: string
  st_isRunning :: bool
  st_draggingComponent :: "string option"
  st_dragOffset :: "rat \<times> rat"
  st_connectingPin :: "PinConnection option"
  st_ledStates :: "string \<rightharpoonup> rat"

text \<open>
  React runs an effect after a render in which one of its dependencies changed. Both
  effects depend on \<open>components\<close> and \<open>connections\<close> (lines 93-95 and 703), the second
  one on \<open>isRunning\<close> too; every call of \<open>setComponents\<close> and \<open>setConnections\<close> in the
  program passes a fresh array.
\<close>

definition effect_generateCode :: "AppState \<Rightarrow> AppState" where
  "effect_generateCode s = s\<lparr>st_code := generateCode (st_components s) (st_connections s)\<rparr>"

definition effect_simulation :: "AppState \<Rightarrow> AppState" where
  "effect_simulation s =
    s\<lparr>st_ledStates := simulation (st_isRunning s) (st_components s) (st_connections s)\<rparr>"

definition setComponents :: "Component list \<Rightarrow> AppState \<Rightarrow> AppState" where
  "setComponents cs s = effect_simulation (effect_generateCode (s\<lparr>st_components := cs\<rparr>))"

definition setConnections :: "Connection list \<Rightarrow> AppState \<Rightarrow> AppState" where
  "setConnections cs s = effect_simulation (effect_generateCode (s\<lparr>st_connections := cs\<rparr>))"

definition setIsRunning :: "bool \<Rightarrow> AppState \<Rightarrow> AppState" where
  "setIsRunning b s = effect_simulation (s\<lparr>st_isRunning := b\<rparr>)"

text \<open>The state after the first render and its effects.\<close>

definition initial_state :: AppState where
  "initial_state =
    \<lparr>st_components = [], st_connections = [], st_code = generateCode [] [],
     st_isRunning = False, st_draggingComponent = None, st_dragOffset = (0, 0),
     st_connectingPin = None, st_ledStates = Map.empty\<rparr>"

subsection \<open>addComponent (lines 235-292)\<close>

definition type_name :: "ComponentType \<Rightarrow> string" where
  "type_name t =
    (case t of Esp8266 \<Rightarrow> ''esp8266'' | Led \<Rightarrow> ''led'' | Resistor \<Rightarrow> ''resistor''
     | Potentiometer \<Rightarrow> ''potentiometer'')"

definition initial_config :: "ComponentType \<Rightarrow> Config" where
  "initial_config t =
    (if t = Led then \<lparr>cfg_color = Some ''#ff0000'', cfg_value = None\<rparr>
     else if t = Resistor then \<lparr>cfg_color = None, cfg_value = Some 220\<rparr>
     else if t = Potentiometer then \<lparr>cfg_color = None, cfg_value = Some 512\<rparr>
     else \<lparr>cfg_color = None, cfg_value = None\<rparr>)"

definition esp_pin :: "rat \<Rightarrow> Side \<Rightarrow> PinLayout \<Rightarrow> Pin" where
  "esp_pin x side pin =
    \<lparr>pin_id = pl_id pin, pin_label = pl_label pin, pin_x = x,
     pin_y = of_nat (pl_offset pin * 20 + 10), pin_side = side\<rparr>"

definition initial_pins :: "ComponentType \<Rightarrow> Pin list" where
  "initial_pins t =
    (case t of
       Esp8266 \<Rightarrow> map (esp_pin 0 SideLeft) esp8266Pins_left @ map (esp_pin 120 SideRight) esp8266Pins_right
     | Led \<Rightarrow>
        [\<lparr>pin_id = ''anode'', pin_label = ''+'', pin_x = 20, pin_y = 0, pin_side = SideLeft\<rparr>,
         \<lparr>pin_id = ''cathode'', pin_label = ''-'', pin_x = 20, pin_y = 50, pin_side = SideLeft\<rparr>]
     | Resistor \<Rightarrow>
        [\<lparr>pin_id = ''pin1'', pin_label = ''1'', pin_x = 0, pin_y = 15, pin_side = SideLeft\<rparr>,
         \<lparr>pin_id = ''pin2'', pin_label = ''2'', pin_x = 80, pin_y = 15, pin_side = SideRight\<rparr>]
     | Potentiometer \<Rightarrow>
        [\<lparr>pin_id = ''vcc'', pin_label = ''VCC'', pin_x = 10, pin_y = 65, pin_side = SideLeft\<rparr>,
         \<lparr>pin_id = ''signal'', pin_label = ''SIG'', pin_x = 35, pin_y = 65, pin_side = SideLeft\<rparr>,
         \<lparr>pin_id = ''gnd'', pin_label = ''GND'', pin_x = 60, pin_y = 65, pin_side = SideRight\<rparr>])"

text \<open>\<open>now\<close> is the reading of \<open>Date.now()\<close>.\<close>

definition newComponent :: "ComponentType \<Rightarrow> nat \<Rightarrow> Component" where
  "newComponent t now =
    \<lparr>comp_id = type_name t @ ''_'' @ show_nat now, comp_type = t, comp_x = 100, comp_y = 100,
     config = Some (initial_config t), pins = Some (initial_pins t)\<rparr>"

definition addComponent :: "ComponentType \<Rightarrow> nat \<Rightarrow> AppState \<Rightarrow> AppState" where
  "addComponent t now s = setComponents (st_components s @ [newComponent t now]) s"

text \<open>
  The four buttons of lines 878-902. The first one carries
  \<open>disabled={components.some(c => c.type === 'esp8266')}\<close>, and a disabled button
  delivers no click.
\<close>

definition click_add :: "ComponentType \<Rightarrow> nat \<Rightarrow> AppState \<Rightarrow> AppState" where
  "click_add t now s =
    (if t = Esp8266 \<and> list_ex (\<lambda>c. comp_type c = Esp8266) (st_components s) then s
     else addComponent t now s)"

subsection \<open>Dragging (lines 295-330)\<close>

text \<open>\<open>mouseX\<close>, \<open>mouseY\<close>: the pointer relative to the canvas, which is mounted.\<close>

definition handleMouseDown :: "string \<Rightarrow> rat \<Rightarrow> rat \<Rightarrow> AppState \<Rightarrow> AppState" where
  "handleMouseDown componentId mouseX mouseY s =
    (case find (\<lambda>c. comp_id c = componentId) (st_components s) of
       None \<Rightarrow> s
     | Some component \<Rightarrow>
         s\<lparr>st_draggingComponent := Some componentId,
           st_dragOffset := (mouseX - comp_x component, mouseY - comp_y component)\<rparr>)"

definition handleMouseMove :: "rat \<Rightarrow> rat \<Rightarrow> AppState \<Rightarrow> AppState" where
  "handleMouseMove mouseX mouseY s =
    (case st_draggingComponent s of
       None \<Rightarrow> s
     | Some d \<Rightarrow>
         setComponents
           (map (\<lambda>cmp. if comp_id cmp = d
                       then cmp\<lparr>comp_x := mouseX - fst (st_dragOffset s),
                                comp_y := mouseY - snd (st_dragOffset s)\<rparr>
                       else cmp) (st_components s)) s)"

definition handleMouseUp :: "AppState \<Rightarrow> AppState" where
  "handleMouseUp s = s\<lparr>st_draggingComponent := None\<rparr>"

subsection \<open>handlePinClick (lines 333-351)\<close>

definition handlePinClick :: "string \<Rightarrow> string \<Rightarrow> nat \<Rightarrow> AppState \<Rightarrow> AppState" where
  "handlePinClick componentId pinId now s =
    (case st_connectingPin s of
       None \<Rightarrow> s\<lparr>st_connectingPin := Some \<lparr>pc_componentId = componentId, pc_pinId = pinId\<rparr>\<rparr>
     | Some connectingPin \<Rightarrow>
         (if pc_componentId connectingPin \<noteq> componentId
          then setConnections
                 (st_connections s @
                  [\<lparr>conn_id = ''conn_'' @ show_nat now,
                    fromComponentId = pc_componentId connectingPin,
                    fromPinId = pc_pinId connectingPin,
                    toComponentId = componentId,
                    toPinId = pinId\<rparr>]) s
          else s)\<lparr>st_connectingPin := None\<rparr>)"

subsection \<open>updatePotValue (lines 706-712) and the toolbar\<close>

text \<open>\<open>{ ...cmp.config, value: newValue }\<close>; spreading \<open>undefined\<close> adds nothing.\<close>

definition spread_value :: "Config option \<Rightarrow> int \<Rightarrow> Config" where
  "spread_value cfg newValue =
    (case cfg of
       None \<Rightarrow> \<lparr>cfg_color = None, cfg_value = Some newValue\<rparr>
     | Some c \<Rightarrow> c\<lparr>cfg_value := Some newValue\<rparr>)"

definition updatePotValue_map :: "string \<Rightarrow> int \<Rightarrow> Component list \<Rightarrow> Component list" where
  "updatePotValue_map componentId newValue components =
    map (\<lambda>cmp. if comp_id cmp = componentId
                then cmp\<lparr>config := Some (spread_value (config cmp) newValue)\<rparr>
                else cmp) components"

definition updatePotValue :: "string \<Rightarrow> int \<Rightarrow> AppState \<Rightarrow> AppState" where
  "updatePotValue componentId newValue s =
    setComponents (updatePotValue_map componentId newValue (st_components s)) s"

text \<open>Line 821: \<open>onClick={() => setConnections([])}\<close>.\<close>

definition clearConnections :: "AppState \<Rightarrow> AppState" where
  "clearConnections s = setConnections [] s"

text \<open>Line 790: \<open>onClick={() => setIsRunning(!isRunning)}\<close>.\<close>

definition toggleRun :: "AppState \<Rightarrow> AppState" where
  "toggleRun s = setIsRunning (\<not> st_isRunning s) s"

subsection \<open>What the user can do\<close>

text \<open>
  One constructor per handler the interface wires to an input event. The canvas click
  of lines 715-737 ends in the \<open>updatePotValue\<close> of the last potentiometer hit, the
  slider of line 1004 in that of its own; both are \<open>PotValue\<close>. \<open>EditCode\<close> is the
  text area of line 835, \<open>ClickCancel\<close> the button of line 909.
\<close>

datatype Event =
    ClickAdd ComponentType nat
  | PinClick string string nat
  | MouseDown string rat rat
  | MouseMove rat rat
  | MouseUp
  | PotValue string int
  | ClickClear
  | ClickRun
  | ClickCancel
  | EditCode string

fun step :: "AppState \<Rightarrow> Event \<Rightarrow> AppState" where
  "step s (ClickAdd t now) = click_add t now s"
| "step s (PinClick componentId pinId now) = handlePinClick componentId pinId now s"
| "step s (MouseDown componentId mouseX mouseY) = handleMouseDown componentId mouseX mouseY s"
| "step s (MouseMove mouseX mouseY) = handleMouseMove mouseX mouseY s"
| "step s MouseUp = handleMouseUp s"
| "step s (PotValue componentId newValue) = updatePotValue componentId newValue s"
| "step s ClickClear = clearConnections s"
| "step s ClickRun = toggleRun s"
| "step s ClickCancel = s\<lparr>st_connectingPin := None\<rparr>"
| "step s (EditCode t) = s\<lparr>st_code := t\<rparr>"

definition run :: "Event list \<Rightarrow> AppState" where
  "run es = foldl step initial_state es"

section \<open>The specification's view of the derived state\<close>

text \<open>
  The Role Resolver of the specification: a component's Bound Role, if it has one. A
  LED is bound by the first connection that joins its anode pin and the controller, a
  potentiometer by the first that joins its signal pin and the controller; the role
  carries the normalized name of the controller's pin.
\<close>

definition led_binding :: "Component \<Rightarrow> Connection list \<Rightarrow> Component \<Rightarrow> Binding option" where
  "led_binding esp connections cmp =
    (if comp_type cmp = Led
     then map_option (\<lambda>conn. (comp_id cmp, pinName (espPin esp conn))) (find (led_link esp cmp) connections)
     else None)"

definition pot_binding :: "Component \<Rightarrow> Connection list \<Rightarrow> Component \<Rightarrow> Binding option" where
  "pot_binding esp connections cmp =
    (if comp_type cmp = Potentiometer
     then map_option (\<lambda>conn. (comp_id cmp, pinName (espPin esp conn))) (find (pot_link esp cmp) connections)
     else None)"

text \<open>The bound LEDs and the bound potentiometers, in the order of their creation.\<close>

definition bound_leds :: "Component \<Rightarrow> Component list \<Rightarrow> Connection list \<Rightarrow> Component list" where
  "bound_leds esp components connections =
    filter (\<lambda>c. comp_type c = Led \<and> find (led_link esp c) connections \<noteq> None) components"

definition bound_pots :: "Component \<Rightarrow> Component list \<Rightarrow> Connection list \<Rightarrow> Component list" where
  "bound_pots esp components connections =
    filter (\<lambda>c. comp_type c = Potentiometer \<and> find (pot_link esp c) connections \<noteq> None) components"


text \<open>The brightness every connected LED gets (lines 688-694).\<close>

definition brightness_of :: "Component list \<Rightarrow> Connection list \<Rightarrow> rat" where
  "brightness_of components connections =
    (if fst (pot_scan components connections)
     then of_int (snd (pot_scan components connections)) / 1023 else 1)"

text \<open>
  The templates as texts. \<open>idle_tail\<close> is the fixed initialization block followed by
  the main loop that only idles; \<open>idle_skeleton\<close> is the whole text generated when
  nothing is bound; \<open>single_blink\<close> is the whole text for one LED bound to \<open>pin\<close>.
\<close>

definition idle_tail :: "string list" where
  \<open>idle_tail =
    [''void setup() {'',
     ''  Serial.begin(115200);'',
     ''  Serial.println("ESP8266 iniciado");'',
     ''}'',
     '''',
     ''void loop() {'',
     idle_comment,
     ''  delay(100);'',
     ''}'']\<close>

definition idle_skeleton :: "string list" where
  "idle_skeleton = [header_line, ''''] @ idle_tail"


text \<open>The number of controllers in the store, and the invariant of the data model.\<close>

definition esp_count :: "Component list \<Rightarrow> nat" where
  "esp_count cs = length (filter (\<lambda>c. comp_type c = Esp8266) cs)"

definition at_most_one_esp :: "Component list \<Rightarrow> bool" where
  "at_most_one_esp cs = (esp_count cs \<le> 1)"

section \<open>Example sessions\<close>

text \<open>
  A controller and a LED are placed, then the LED's anode pin is clicked: the pending
  endpoint is armed.
\<close>

definition armed_state :: AppState where
  "armed_state = run [ClickAdd Esp8266 10, ClickAdd Led 20, PinClick ''led_20'' ''anode'' 30]"

text \<open>A store without a controller: a LED, a resistor and a potentiometer, one wire.\<close>

definition no_controller_components :: "Component list" where
  "no_controller_components = [newComponent Led 20, newComponent Resistor 30, newComponent Potentiometer 40]"

definition no_controller_connections :: "Connection list" where
  "no_controller_connections =
    [\<lparr>conn_id = ''conn_50'', fromComponentId = ''led_20'', fromPinId = ''anode'',
      toComponentId = ''potentiometer_40'', toPinId = ''signal''\<rparr>]"

text \<open>A LED and a potentiometer, for the slider.\<close>

definition pot_example :: "Component list" where
  "pot_example = [newComponent Led 20, newComponent Potentiometer 40]"

text \<open>
  A controller, a LED and a potentiometer; the LED's anode is wired to \<open>D2\<close>, the
  potentiometer's signal pin to \<open>A0\<close>, and the simulation runs.
\<close>

definition bound_state :: AppState where
  "bound_state =
    run [ClickAdd Esp8266 10, ClickAdd Led 20, ClickAdd Potentiometer 40,
         PinClick ''led_20'' ''anode'' 50, PinClick ''esp8266_10'' ''D2'' 60,
         PinClick ''esp8266_10'' ''A0'' 70, PinClick ''potentiometer_40'' ''signal'' 80,
         ClickRun]"




text \<open>
  A controller and a potentiometer, the potentiometer's signal pin wired to \<open>A0\<close>; no LED.
\<close>

definition pot_only_state :: AppState where
  "pot_only_state =
    run [ClickAdd Esp8266 10, ClickAdd Potentiometer 40,
         PinClick ''potentiometer_40'' ''signal'' 50, PinClick ''esp8266_10'' ''A0'' 60]"

text \<open>
  A controller and two LEDs, \<open>led_20\<close> created before \<open>led_30\<close>; the wire of the second
  LED (to \<open>D5\<close>) is drawn before the wire of the first (to \<open>D3\<close>).
\<close>

definition two_led_components :: "Component list" where
  "two_led_components = [newComponent Esp8266 10, newComponent Led 20, newComponent Led 30]"

definition two_led_connections :: "Connection list" where
  "two_led_connections =
    [\<lparr>conn_id = ''conn_40'', fromComponentId = ''led_30'', fromPinId = ''anode'',
      toComponentId = ''esp8266_10'', toPinId = ''D5''\<rparr>,
     \<lparr>conn_id = ''conn_50'', fromComponentId = ''esp8266_10'', fromPinId = ''D3'',
      toComponentId = ''led_20'', toPinId = ''anode''\<rparr>]"

text \<open>
  A controller, a LED whose anode is wired to the controller's pin \<open>GND_L1\<close> and a
  potentiometer whose signal pin is wired to the controller's pin \<open>GND_R2\<close>.
\<close>

definition gnd_components :: "Component list" where
  "gnd_components =
    [newComponent Esp8266 10, newComponent Led 20, newComponent Potentiometer 40]"

definition gnd_connections :: "Connection list" where
  "gnd_connections =
    [\<lparr>conn_id = ''conn_50'', fromComponentId = ''led_20'', fromPinId = ''anode'',
      toComponentId = ''esp8266_10'', toPinId = ''GND_L1''\<rparr>,
     \<lparr>conn_id = ''conn_60'', fromComponentId = ''esp8266_10'', fromPinId = ''GND_R2'',
      toComponentId = ''potentiometer_40'', toPinId = ''signal''\<rparr>]"

section \<open>The potentiometer scan, by parts\<close>

text \<open>
  The test of lines 680-681, a connection that links a potentiometer and the
  controller by any of their pins, and the potentiometer of line 683.
\<close>

definition potToEsp :: "Component list \<Rightarrow> Connection \<Rightarrow> bool" where
  "potToEsp components potConn =
    ((typeOfId components (fromComponentId potConn) = Some Potentiometer \<and>
      typeOfId components (toComponentId potConn) = Some Esp8266) \<or>
     (typeOfId components (toComponentId potConn) = Some Potentiometer \<and>
      typeOfId components (fromComponentId potConn) = Some Esp8266))"

definition potComp :: "Component list \<Rightarrow> Connection \<Rightarrow> Component option" where
  "potComp components potConn =
    (if typeOfId components (fromComponentId potConn) = Some Potentiometer
     then find (\<lambda>c. comp_id c = fromComponentId potConn) components
     else find (\<lambda>c. comp_id c = toComponentId potConn) components)"

section \<open>Auxiliary facts\<close>

lemma show_nat_1: "show_nat 1 = ''1''"
  by (simp add: show_nat.simps digit_char_def)

lemma show_nat_Suc_0: "show_nat (Suc 0) = ''1''"
  by (simp add: show_nat.simps digit_char_def)

lemma show_nat_2: "show_nat 2 = ''2''"
  by (simp add: show_nat.simps digit_char_def)

lemma resolve_step_eq:
  "resolve_step esp conns acc c =
     (fst acc @ (case led_binding esp conns c of None \<Rightarrow> [] | Some b \<Rightarrow> [b]),
      snd acc @ (case pot_binding esp conns c of None \<Rightarrow> [] | Some b \<Rightarrow> [b]))"
  by (cases "comp_type c")
     (simp_all add: resolve_step_def led_binding_def pot_binding_def split: option.split)

lemma resolve_foldl:
  "foldl (resolve_step esp conns) acc cs =
     (fst acc @ List.map_filter (led_binding esp conns) cs,
      snd acc @ List.map_filter (pot_binding esp conns) cs)"
proof (induction cs arbitrary: acc)
  case Nil
  show ?case by (simp add: List.map_filter_simps)
next
  case (Cons c cs)
  define acc' where "acc' = resolve_step esp conns acc c"
  have "foldl (resolve_step esp conns) acc (c # cs) = foldl (resolve_step esp conns) acc' cs"
    by (simp add: acc'_def)
  also have "\<dots> = (fst acc' @ List.map_filter (led_binding esp conns) cs,
                    snd acc' @ List.map_filter (pot_binding esp conns) cs)"
    by (rule Cons.IH)
  also have "\<dots> = (fst acc @ List.map_filter (led_binding esp conns) (c # cs),
                    snd acc @ List.map_filter (pot_binding esp conns) (c # cs))"
    unfolding acc'_def resolve_step_eq [of esp conns acc c]
    by (simp add: List.map_filter_simps split: option.split)
  finally show ?case .
qed

lemma resolve_eq:
  "resolve esp cs conns =
     (List.map_filter (led_binding esp conns) cs, List.map_filter (pot_binding esp conns) cs)"
  by (simp add: resolve_def resolve_foldl)

lemma led_state_step_eq:
  "led_state_step cs conns m x =
     (if comp_type x = Led \<and> find (ledToEsp cs x) conns \<noteq> None
      then m(comp_id x \<mapsto> brightness_of cs conns) else m)"
  by (simp add: led_state_step_def brightness_of_def split: option.split)

lemma led_states_foldl:
  "foldl (led_state_step cs conns) m xs =
     (\<lambda>i. if \<exists>c\<in>set xs. comp_type c = Led \<and> comp_id c = i \<and> find (ledToEsp cs c) conns \<noteq> None
          then Some (brightness_of cs conns) else m i)"
proof (induction xs arbitrary: m)
  case Nil
  show ?case by simp
next
  case (Cons x xs)
  define m' where "m' = led_state_step cs conns m x"
  have "foldl (led_state_step cs conns) m (x # xs) = foldl (led_state_step cs conns) m' xs"
    by (simp add: m'_def)
  also have "\<dots> =
      (\<lambda>i. if \<exists>c\<in>set xs. comp_type c = Led \<and> comp_id c = i \<and> find (ledToEsp cs c) conns \<noteq> None
           then Some (brightness_of cs conns) else m' i)"
    by (rule Cons.IH)
  also have "\<dots> =
      (\<lambda>i. if \<exists>c\<in>set (x # xs). comp_type c = Led \<and> comp_id c = i \<and> find (ledToEsp cs c) conns \<noteq> None
           then Some (brightness_of cs conns) else m i)"
    unfolding m'_def led_state_step_eq [of cs conns m x]
    by (auto simp: fun_eq_iff)
  finally show ?case .
qed

lemma updateLedStates_eq:
  "updateLedStates cs conns =
     (\<lambda>i. if \<exists>c\<in>set cs. comp_type c = Led \<and> comp_id c = i \<and> find (ledToEsp cs c) conns \<noteq> None
          then Some (brightness_of cs conns) else None)"
  by (simp add: updateLedStates_def led_states_foldl)

lemma typeOfId_no_esp:
  "\<forall>c\<in>set cs. comp_type c \<noteq> Esp8266 \<Longrightarrow> typeOfId cs i \<noteq> Some Esp8266"
  by (auto simp: typeOfId_def find_Some_iff)

lemma find_esp_None: "(find is_esp cs = None) = (\<forall>c\<in>set cs. comp_type c \<noteq> Esp8266)"
  by (auto simp: find_None_iff is_esp_def)

lemma st_components_setComponents [simp]: "st_components (setComponents cs s) = cs"
  by (simp add: setComponents_def effect_simulation_def effect_generateCode_def)

lemma st_components_setConnections [simp]: "st_components (setConnections k s) = st_components s"
  by (simp add: setConnections_def effect_simulation_def effect_generateCode_def)

lemma st_connections_setComponents [simp]: "st_connections (setComponents cs s) = st_connections s"
  by (simp add: setComponents_def effect_simulation_def effect_generateCode_def)

lemma st_connections_setConnections [simp]: "st_connections (setConnections k s) = k"
  by (simp add: setConnections_def effect_simulation_def effect_generateCode_def)

lemma st_connectingPin_setConnections [simp]:
  "st_connectingPin (setConnections k s) = st_connectingPin s"
  by (simp add: setConnections_def effect_simulation_def effect_generateCode_def)

lemma st_code_setConnections [simp]:
  "st_code (setConnections k s) = generateCode (st_components s) k"
  by (simp add: setConnections_def effect_simulation_def effect_generateCode_def)

lemma st_ledStates_setConnections [simp]:
  "st_ledStates (setConnections k s) = simulation (st_isRunning s) (st_components s) k"
  by (simp add: setConnections_def effect_simulation_def effect_generateCode_def)

lemma esp_count_map:
  "(\<And>c. comp_type (f c) = comp_type c) \<Longrightarrow> esp_count (map f cs) = esp_count cs"
  by (induction cs) (simp_all add: esp_count_def)

lemma esp_count_zero: "\<not> list_ex (\<lambda>c. comp_type c = Esp8266) cs \<Longrightarrow> esp_count cs = 0"
  by (simp add: esp_count_def list_ex_iff filter_empty_conv)

lemma click_add_inv:
  assumes "at_most_one_esp (st_components s)"
  shows "at_most_one_esp (st_components (click_add t now s))"
proof (cases "t = Esp8266")
  case True
  show ?thesis
  proof (cases "list_ex (\<lambda>c. comp_type c = Esp8266) (st_components s)")
    case True
    have "click_add t now s = s"
      using True \<open>t = Esp8266\<close> by (simp add: click_add_def)
    with assms show ?thesis by simp
  next
    case False
    then have zero: "esp_count (st_components s) = 0"
      by (rule esp_count_zero)
    have "st_components (click_add t now s) = st_components s @ [newComponent t now]"
      using False by (simp add: click_add_def addComponent_def)
    then have "esp_count (st_components (click_add t now s)) = 1"
      using zero True by (simp add: esp_count_def newComponent_def)
    then show ?thesis by (simp add: at_most_one_esp_def)
  qed
next
  case False
  have "st_components (click_add t now s) = st_components s @ [newComponent t now]"
    using False by (simp add: click_add_def addComponent_def)
  then have "esp_count (st_components (click_add t now s)) = esp_count (st_components s)"
    using False by (simp add: esp_count_def newComponent_def)
  with assms show ?thesis by (simp add: at_most_one_esp_def)
qed

lemma step_inv:
  assumes "at_most_one_esp (st_components s)"
  shows "at_most_one_esp (st_components (step s e))"
proof (cases e)
  case (ClickAdd t now)
  with assms show ?thesis by (simp add: click_add_inv)
next
  case (PinClick componentId pinId now)
  with assms show ?thesis by (simp add: handlePinClick_def split: option.split)
next
  case (MouseDown componentId mouseX mouseY)
  with assms show ?thesis by (simp add: handleMouseDown_def split: option.split)
next
  case (MouseMove mouseX mouseY)
  with assms show ?thesis
    by (simp add: handleMouseMove_def esp_count_map at_most_one_esp_def split: option.split)
next
  case MouseUp
  with assms show ?thesis by (simp add: handleMouseUp_def)
next
  case (PotValue componentId newValue)
  with assms show ?thesis
    by (simp add: updatePotValue_def updatePotValue_map_def esp_count_map at_most_one_esp_def)
next
  case ClickClear
  with assms show ?thesis by (simp add: clearConnections_def)
next
  case ClickRun
  with assms show ?thesis by (simp add: toggleRun_def setIsRunning_def effect_simulation_def)
next
  case ClickCancel
  with assms show ?thesis by simp
next
  case (EditCode t)
  with assms show ?thesis by simp
qed

lemma foldl_step_inv:
  "at_most_one_esp (st_components s) \<Longrightarrow> at_most_one_esp (st_components (foldl step s es))"
  by (induction es arbitrary: s) (simp_all add: step_inv)

section \<open>C9: at most one controller\<close>

text \<open>
  Claim C9. In every state the user can reach from the empty store, whatever the
  sequence of button clicks, pin clicks, drags, slider moves and toolbar actions, the
  store holds at most one controller: the button that creates one is disabled as
  soon as one exists, and no other handler changes the kind of a component.
\<close>

theorem at_most_one_controller: "at_most_one_esp (st_components (run es))"
  unfolding run_def
  by (rule foldl_step_inv) (simp add: initial_state_def esp_count_def at_most_one_esp_def)

section \<open>C8: the second click of the two-click protocol\<close>

text \<open>
  Claim C8, amended. With a pending endpoint armed, a click on a pin of the same
  component creates no connection and clears the pending endpoint (the rest of the
  state is untouched); a click on a pin of another component appends exactly one
  connection, from the pending endpoint to the clicked pin, and clears the pending
  endpoint.
\<close>

theorem pin_click_when_armed:
  assumes "st_connectingPin s = Some p"
  shows "(componentId = pc_componentId p \<longrightarrow>
            handlePinClick componentId pinId now s = s\<lparr>st_connectingPin := None\<rparr>) \<and>
         (componentId \<noteq> pc_componentId p \<longrightarrow>
            st_connections (handlePinClick componentId pinId now s) =
              st_connections s @
                [\<lparr>conn_id = ''conn_'' @ show_nat now,
                  fromComponentId = pc_componentId p, fromPinId = pc_pinId p,
                  toComponentId = componentId, toPinId = pinId\<rparr>] \<and>
            st_connectingPin (handlePinClick componentId pinId now s) = None)"
  using assms by (simp add: handlePinClick_def)

subsection \<open>The armed session\<close>

lemma st_connectingPin_setComponents [simp]:
  "st_connectingPin (setComponents cs s) = st_connectingPin s"
  by (simp add: setComponents_def effect_simulation_def effect_generateCode_def)

lemma armed_state_pending:
  "st_connectingPin armed_state = Some \<lparr>pc_componentId = ''led_20'', pc_pinId = ''anode''\<rparr>"
  by (simp add: armed_state_def run_def initial_state_def click_add_def addComponent_def
      handlePinClick_def)

lemma armed_state_connections: "st_connections armed_state = []"
  by (simp add: armed_state_def run_def initial_state_def click_add_def addComponent_def
      handlePinClick_def)

text \<open>
  The claim as stated says that the same-component click leaves the pending endpoint
  armed. In \<open>armed_state\<close> the pending endpoint is the LED's anode; after a click on the
  LED's cathode it is cleared.
\<close>

theorem pin_click_same_component_counterexample:
  "st_connectingPin armed_state = Some \<lparr>pc_componentId = ''led_20'', pc_pinId = ''anode''\<rparr> \<and>
   st_connectingPin (handlePinClick ''led_20'' ''cathode'' 40 armed_state) = None"
  by (simp add: armed_state_pending handlePinClick_def)

theorem pin_click_when_armed_witness:
  "handlePinClick ''led_20'' ''cathode'' 40 armed_state = armed_state\<lparr>st_connectingPin := None\<rparr> \<and>
   st_connections (handlePinClick ''esp8266_10'' ''D1'' 40 armed_state) =
     [\<lparr>conn_id = ''conn_40'', fromComponentId = ''led_20'', fromPinId = ''anode'',
       toComponentId = ''esp8266_10'', toPinId = ''D1''\<rparr>] \<and>
   st_connectingPin (handlePinClick ''esp8266_10'' ''D1'' 40 armed_state) = None"
  using pin_click_when_armed [OF armed_state_pending, of "''led_20''" "''cathode''" 40]
        pin_click_when_armed [OF armed_state_pending, of "''esp8266_10''" "''D1''" 40]
  by (simp add: armed_state_connections show_nat.simps digit_char_def)

section \<open>C4: no controller\<close>

text \<open>
  Claim C4. When the store holds no controller (it is empty, or holds only LEDs,
  resistors and potentiometers, whatever their connections), the generated code is
  exactly the placeholder comment, a single line, and the brightness map computed
  while the run flag is active is empty.
\<close>

theorem no_controller_placeholder:
  assumes "\<forall>c\<in>set cs. comp_type c \<noteq> Esp8266"
  shows "generateCode cs conns = ''// Agrega un ESP8266 para comenzar'' \<and>
         CHR 0x0A \<notin> set (generateCode cs conns) \<and>
         simulation True cs conns = Map.empty"
proof -
  have none: "find is_esp cs = None"
    using assms by (simp add: find_esp_None)
  have code: "generateCode cs conns = ''// Agrega un ESP8266 para comenzar''"
    by (simp add: generateCode_def none placeholder_def)
  have no_link: "find (ledToEsp cs c) conns = None" for c
    using typeOfId_no_esp [OF assms] by (simp add: find_None_iff ledToEsp_def)
  have "updateLedStates cs conns = Map.empty"
    by (simp add: updateLedStates_eq no_link)
  then have sim: "simulation True cs conns = Map.empty"
    by (simp add: simulation_def)
  show ?thesis
    using sim by (simp add: code)
qed

theorem no_controller_placeholder_witness:
  "generateCode no_controller_components no_controller_connections =
     ''// Agrega un ESP8266 para comenzar'' \<and>
   simulation True no_controller_components no_controller_connections = Map.empty \<and>
   generateCode [] [] = ''// Agrega un ESP8266 para comenzar'' \<and>
   simulation True [] [] = Map.empty"
proof -
  have h: "\<forall>c\<in>set no_controller_components. comp_type c \<noteq> Esp8266"
    by (simp add: no_controller_components_def newComponent_def)
  have e: "\<forall>c\<in>set ([]::Component list). comp_type c \<noteq> Esp8266"
    by simp
  show ?thesis
    using no_controller_placeholder [OF h, of no_controller_connections]
          no_controller_placeholder [OF e, of "[]"]
    by simp
qed

section \<open>C10: the frame of updatePotValue\<close>

text \<open>
  Claim C10. \<open>updatePotValue(componentId, newValue)\<close> keeps the length and the order of
  the component list; a component with that id keeps its id, type, position and pins
  and the other properties of its config, and its config value becomes \<open>newValue\<close>;
  every other component is unchanged; the connection list is unchanged; and if no
  component has that id, the component list is unchanged.
\<close>

theorem updatePotValue_frame:
  "length (updatePotValue_map componentId newValue cs) = length cs \<and>
   (\<forall>i < length cs.
      (comp_id (cs ! i) = componentId \<longrightarrow>
         updatePotValue_map componentId newValue cs ! i =
           (cs ! i)\<lparr>config := Some (spread_value (config (cs ! i)) newValue)\<rparr> \<and>
         comp_id (updatePotValue_map componentId newValue cs ! i) = comp_id (cs ! i) \<and>
         comp_type (updatePotValue_map componentId newValue cs ! i) = comp_type (cs ! i) \<and>
         comp_x (updatePotValue_map componentId newValue cs ! i) = comp_x (cs ! i) \<and>
         comp_y (updatePotValue_map componentId newValue cs ! i) = comp_y (cs ! i) \<and>
         pins (updatePotValue_map componentId newValue cs ! i) = pins (cs ! i) \<and>
         map_option cfg_value (config (updatePotValue_map componentId newValue cs ! i)) =
           Some (Some newValue) \<and>
         map_option cfg_color (config (updatePotValue_map componentId newValue cs ! i)) =
           Some (case config (cs ! i) of None \<Rightarrow> None | Some c \<Rightarrow> cfg_color c)) \<and>
      (comp_id (cs ! i) \<noteq> componentId \<longrightarrow>
         updatePotValue_map componentId newValue cs ! i = cs ! i)) \<and>
   (componentId \<notin> comp_id ` set cs \<longrightarrow> updatePotValue_map componentId newValue cs = cs) \<and>
   st_components (updatePotValue componentId newValue s) =
     updatePotValue_map componentId newValue (st_components s) \<and>
   st_connections (updatePotValue componentId newValue s) = st_connections s"
proof -
  have unchanged: "componentId \<notin> comp_id ` set cs \<Longrightarrow> updatePotValue_map componentId newValue cs = cs"
    by (induction cs) (auto simp: updatePotValue_map_def)
  show ?thesis
    using unchanged
    by (simp add: updatePotValue_map_def updatePotValue_def spread_value_def split: option.split)
qed

theorem updatePotValue_frame_witness:
  "updatePotValue_map ''potentiometer_40'' 700 pot_example =
     [newComponent Led 20,
      (newComponent Potentiometer 40)\<lparr>config := Some \<lparr>cfg_color = None, cfg_value = Some 700\<rparr>\<rparr>] \<and>
   updatePotValue_map ''potentiometer_99'' 700 pot_example = pot_example"
proof -
  have len: "length pot_example = 2"
    by (simp add: pot_example_def)
  have absent: "''potentiometer_99'' \<notin> comp_id ` set pot_example"
    by (simp add: pot_example_def newComponent_def type_name_def show_nat.simps digit_char_def)
  have ids: "comp_id (pot_example ! 0) \<noteq> ''potentiometer_40''" "comp_id (pot_example ! 1) = ''potentiometer_40''"
    by (simp_all add: pot_example_def newComponent_def type_name_def show_nat.simps digit_char_def)
  note fr = updatePotValue_frame [of "''potentiometer_40''" 700 pot_example initial_state]
  have l: "length (updatePotValue_map ''potentiometer_40'' 700 pot_example) = 2"
    using fr len by simp
  have a0: "updatePotValue_map ''potentiometer_40'' 700 pot_example ! 0 = pot_example ! 0"
    using fr len ids by simp
  have a1: "updatePotValue_map ''potentiometer_40'' 700 pot_example ! 1 =
      (pot_example ! 1)\<lparr>config := Some (spread_value (config (pot_example ! 1)) 700)\<rparr>"
    using fr len ids by simp
  have first: "updatePotValue_map ''potentiometer_40'' 700 pot_example =
      [pot_example ! 0, (pot_example ! 1)\<lparr>config := Some (spread_value (config (pot_example ! 1)) 700)\<rparr>]"
    using l a0 a1 by (auto simp: list_eq_iff_nth_eq less_Suc_eq numeral_2_eq_2)
  have second: "updatePotValue_map ''potentiometer_99'' 700 pot_example = pot_example"
    using updatePotValue_frame [of "''potentiometer_99''" 700 pot_example initial_state] absent
    by simp
  show ?thesis
    unfolding first second
    by (simp add: pot_example_def newComponent_def spread_value_def initial_config_def)
qed

section \<open>Auxiliary facts: the lines of the generated code\<close>

lemma forEach_idx_Nil [simp]: "forEach_idx f [] = []"
  by (simp add: forEach_idx_def)

lemma forEach_idx_single: "forEach_idx f [x] = [f 0 x]"
  by (simp add: forEach_idx_def)

lemma forEach_idx_pair: "forEach_idx f [x, y] = [f 0 x, f 1 y]"
  by (simp add: forEach_idx_def)

lemma length_forEach_idx [simp]: "length (forEach_idx f xs) = length xs"
  by (simp add: forEach_idx_def)

lemma nth_forEach_idx: "i < length xs \<Longrightarrow> forEach_idx f xs ! i = f i (xs ! i)"
  by (simp add: forEach_idx_def nth_enumerate_eq)

lemma forEach_idx_eq_Nil [simp]: "(forEach_idx f xs = []) = (xs = [])"
  by (cases xs) (simp_all add: forEach_idx_def)

lemma map_filter_eq_Nil: "(List.map_filter f xs = []) = (\<forall>x\<in>set xs. f x = None)"
  by (induction xs) (auto split: option.split)

lemma codeLines_no_led:
  assumes "fst (resolve esp cs conns) = []"
  shows "codeLines esp cs conns =
           [header_line, ''''] @
           (if snd (resolve esp cs conns) = [] then []
            else forEach_idx pot_define (snd (resolve esp cs conns)) @ ['''']) @
           idle_tail"
  using assms
  by (simp add: codeLines_def pinDefinitions_def setupCode_def loopBody_def idle_tail_def Let_def)

lemma resolve_no_connections: "resolve esp cs [] = ([], [])"
  by (simp add: resolve_eq map_filter_eq_Nil led_binding_def pot_binding_def)

lemma generateCode_no_connections:
  "find is_esp cs = Some esp \<Longrightarrow> generateCode cs [] = join_lines idle_skeleton"
  by (simp add: generateCode_def codeLines_no_led resolve_no_connections idle_skeleton_def)

lemma simulation_no_connections: "simulation b cs [] = Map.empty"
  by (simp add: simulation_def updateLedStates_eq)

section \<open>C7: clearing the connections\<close>

text \<open>
  Claim C7. In a store with a controller (a graph with bindings has one: only a
  controller binds), clearing the connections leaves the generated code equal to the
  template for no bound LED and the brightness map empty, and clearing twice gives
  the same state as clearing once.
\<close>

theorem clearConnections_resets:
  assumes "find is_esp (st_components s) = Some esp"
  shows "st_connections (clearConnections s) = [] \<and>
         st_code (clearConnections s) = join_lines idle_skeleton \<and>
         st_ledStates (clearConnections s) = Map.empty \<and>
         clearConnections (clearConnections s) = clearConnections s"
proof -
  have twice: "clearConnections (clearConnections s) = clearConnections s"
    by (simp add: clearConnections_def setConnections_def effect_simulation_def
        effect_generateCode_def)
  show ?thesis
    using assms twice
    by (simp add: clearConnections_def generateCode_no_connections simulation_no_connections)
qed

subsection \<open>A bound session\<close>

lemma bound_state_components:
  "st_components bound_state =
     [newComponent Esp8266 10, newComponent Led 20, newComponent Potentiometer 40]"
  by (simp add: bound_state_def run_def initial_state_def click_add_def addComponent_def
      handlePinClick_def toggleRun_def setIsRunning_def effect_simulation_def newComponent_def)

lemma bound_state_connections:
  "st_connections bound_state =
     [\<lparr>conn_id = ''conn_60'', fromComponentId = ''led_20'', fromPinId = ''anode'',
       toComponentId = ''esp8266_10'', toPinId = ''D2''\<rparr>,
      \<lparr>conn_id = ''conn_80'', fromComponentId = ''esp8266_10'', fromPinId = ''A0'',
       toComponentId = ''potentiometer_40'', toPinId = ''signal''\<rparr>]"
  by (simp add: bound_state_def run_def initial_state_def click_add_def addComponent_def
      handlePinClick_def toggleRun_def setIsRunning_def effect_simulation_def newComponent_def
      type_name_def show_nat.simps digit_char_def)

lemma bound_state_resolve:
  "resolve (newComponent Esp8266 10) (st_components bound_state) (st_connections bound_state) =
     ([(''led_20'', ''D2'')], [(''potentiometer_40'', ''A0'')])"
  by (simp add: bound_state_components bound_state_connections resolve_def resolve_step_def
      newComponent_def type_name_def show_nat.simps digit_char_def led_link_def pot_link_def
      espPin_def pinName_def)

theorem clearConnections_resets_witness:
  "resolve (newComponent Esp8266 10) (st_components bound_state) (st_connections bound_state) =
     ([(''led_20'', ''D2'')], [(''potentiometer_40'', ''A0'')]) \<and>
   st_connections (clearConnections bound_state) = [] \<and>
   st_code (clearConnections bound_state) = join_lines idle_skeleton \<and>
   st_ledStates (clearConnections bound_state) = Map.empty \<and>
   clearConnections (clearConnections bound_state) = clearConnections bound_state"
proof -
  have esp: "find is_esp (st_components bound_state) = Some (newComponent Esp8266 10)"
    by (simp add: bound_state_components is_esp_def newComponent_def)
  show ?thesis
    using clearConnections_resets [OF esp] bound_state_resolve by simp
qed

section \<open>Auxiliary facts: bindings\<close>

lemma led_binding_None_iff:
  "(led_binding esp conns c = None) = (comp_type c \<noteq> Led \<or> (\<forall>k\<in>set conns. \<not> led_link esp c k))"
  by (auto simp: led_binding_def find_None_iff)







section \<open>C1: one LED\<close>



section \<open>C3: a controller and no bound LED\<close>

text \<open>
  Claim C3, amended. When the store holds a controller and no LED is bound, the
  generated text is the header comment and a blank line, then, if some potentiometer
  is bound, one \<open>#define POT_PIN_k\<close> line per bound potentiometer (numbered from 1 in
  creation order, with the normalized controller pin) and a blank line, then the fixed
  initialization block and the main loop that only idles. It is the minimal skeleton
  exactly when no potentiometer is bound.
\<close>

theorem no_led_bound_skeleton:
  assumes esp: "find is_esp cs = Some esp"
    and no_led: "\<forall>c\<in>set cs. comp_type c = Led \<longrightarrow> (\<forall>k\<in>set conns. \<not> led_link esp c k)"
  shows "generateCode cs conns =
           join_lines
             ([header_line, ''''] @
              (if List.map_filter (pot_binding esp conns) cs = [] then []
               else forEach_idx pot_define (List.map_filter (pot_binding esp conns) cs) @ ['''']) @
              idle_tail) \<and>
         (List.map_filter (pot_binding esp conns) cs = [] \<longrightarrow>
            generateCode cs conns = join_lines idle_skeleton)"
proof -
  have leds: "fst (resolve esp cs conns) = []"
    using no_led by (simp add: resolve_eq map_filter_eq_Nil led_binding_None_iff)
  have pots: "snd (resolve esp cs conns) = List.map_filter (pot_binding esp conns) cs"
    by (simp add: resolve_eq)
  have "generateCode cs conns = join_lines (codeLines esp cs conns)"
    by (simp add: generateCode_def esp)
  then show ?thesis
    by (simp add: codeLines_no_led [OF leds] pots idle_skeleton_def)
qed

subsection \<open>A session with a bound potentiometer and no LED\<close>

lemma pot_only_components:
  "st_components pot_only_state = [newComponent Esp8266 10, newComponent Potentiometer 40]"
  by (simp add: pot_only_state_def run_def initial_state_def click_add_def addComponent_def
      handlePinClick_def newComponent_def)

lemma pot_only_connections:
  "st_connections pot_only_state =
     [\<lparr>conn_id = ''conn_60'', fromComponentId = ''potentiometer_40'', fromPinId = ''signal'',
       toComponentId = ''esp8266_10'', toPinId = ''A0''\<rparr>]"
  by (simp add: pot_only_state_def run_def initial_state_def click_add_def addComponent_def
      handlePinClick_def newComponent_def type_name_def show_nat.simps digit_char_def)

lemma pot_only_code:
  "st_code pot_only_state =
     generateCode (st_components pot_only_state) (st_connections pot_only_state)"
  by (simp add: pot_only_state_def run_def click_add_def addComponent_def
      handlePinClick_def setComponents_def setConnections_def effect_generateCode_def
      effect_simulation_def initial_state_def)

lemma pot_only_esp:
  "find is_esp (st_components pot_only_state) = Some (newComponent Esp8266 10)"
  by (simp add: pot_only_components is_esp_def newComponent_def)

lemma pot_only_bindings:
  "List.map_filter (pot_binding (newComponent Esp8266 10) (st_connections pot_only_state))
     (st_components pot_only_state) = [(''potentiometer_40'', ''A0'')]"
  by (simp add: pot_only_components pot_only_connections pot_binding_def pot_link_def
      espPin_def pinName_def newComponent_def type_name_def show_nat.simps digit_char_def)

lemma pot_only_no_led:
  "\<forall>c\<in>set (st_components pot_only_state).
     comp_type c = Led \<longrightarrow>
     (\<forall>k\<in>set (st_connections pot_only_state). \<not> led_link (newComponent Esp8266 10) c k)"
  by (simp add: pot_only_components newComponent_def)

theorem no_led_bound_skeleton_witness:
  \<open>st_code pot_only_state =
     join_lines
       [header_line,
        '''',
        ''#define POT_PIN_1 A0'',
        '''',
        ''void setup() {'',
        ''  Serial.begin(115200);'',
        ''  Serial.println("ESP8266 iniciado");'',
        ''}'',
        '''',
        ''void loop() {'',
        idle_comment,
        ''  delay(100);'',
        ''}'']\<close>
  using no_led_bound_skeleton [OF pot_only_esp pot_only_no_led]
  by (simp add: pot_only_code pot_only_bindings forEach_idx_single pot_define_def
      show_nat_Suc_0 idle_tail_def)

text \<open>
  The claim as stated has the minimal skeleton generated whether or not a
  potentiometer is bound. In \<open>pot_only_state\<close> there is a controller and no LED at
  all, and the generated text is not the minimal skeleton: it declares the
  potentiometer's pin constant.
\<close>

theorem no_led_bound_skeleton_counterexample:
  "find is_esp (st_components pot_only_state) = Some (newComponent Esp8266 10) \<and>
   filter (\<lambda>c. comp_type c = Led) (st_components pot_only_state) = [] \<and>
   codeLines (newComponent Esp8266 10) (st_components pot_only_state)
     (st_connections pot_only_state) ! 2 = ''#define POT_PIN_1 A0'' \<and>
   st_code pot_only_state \<noteq> join_lines idle_skeleton"
proof -
  have leds: "fst (resolve (newComponent Esp8266 10) (st_components pot_only_state)
      (st_connections pot_only_state)) = []"
    using pot_only_no_led by (simp add: resolve_eq map_filter_eq_Nil led_binding_None_iff)
  have pots: "snd (resolve (newComponent Esp8266 10) (st_components pot_only_state)
      (st_connections pot_only_state)) = [(''potentiometer_40'', ''A0'')]"
    by (simp add: resolve_eq pot_only_bindings)
  have lines: "codeLines (newComponent Esp8266 10) (st_components pot_only_state)
      (st_connections pot_only_state) =
      [header_line, '''', ''#define POT_PIN_1 A0'', ''''] @ idle_tail"
    by (simp add: codeLines_no_led [OF leds] pots forEach_idx_single pot_define_def
        show_nat_Suc_0)
  have code: "st_code pot_only_state =
      join_lines ([header_line, '''', ''#define POT_PIN_1 A0'', ''''] @ idle_tail)"
    by (simp add: pot_only_code generateCode_def pot_only_esp lines)
  have differ: "join_lines ([header_line, '''', ''#define POT_PIN_1 A0'', ''''] @ idle_tail) \<noteq>
      join_lines idle_skeleton"
    by (simp add: idle_skeleton_def idle_tail_def)
  have no_leds: "filter (\<lambda>c. comp_type c = Led) (st_components pot_only_state) = []"
    by (simp add: pot_only_components newComponent_def)
  have third: "codeLines (newComponent Esp8266 10) (st_components pot_only_state)
      (st_connections pot_only_state) ! 2 = ''#define POT_PIN_1 A0''"
    by (simp add: lines)
  from pot_only_esp no_leds third differ show ?thesis
    unfolding code by (intro conjI)
qed

section \<open>Auxiliary facts: the bound LEDs in order\<close>

lemma led_binding_pin:
  assumes "comp_type c = Led"
    and "\<exists>k\<in>set conns. led_link esp c k"
    and "\<forall>k\<in>set conns. led_link esp c k \<longrightarrow> pinName (espPin esp k) = p"
  shows "led_binding esp conns c = Some (comp_id c, p)"
proof -
  from assms(2) have "find (led_link esp c) conns \<noteq> None"
    by (auto simp: find_None_iff)
  then obtain k where k: "find (led_link esp c) conns = Some k"
    by blast
  then have "k \<in> set conns \<and> led_link esp c k"
    by (auto simp: find_Some_iff)
  with assms(3) have "pinName (espPin esp k) = p"
    by blast
  with k assms(1) show ?thesis
    by (simp add: led_binding_def)
qed

lemma map_filter_bound_leds:
  "List.map_filter (led_binding esp conns) cs =
     map (\<lambda>c. the (led_binding esp conns c)) (bound_leds esp cs conns)"
proof -
  have "(\<lambda>c. led_binding esp conns c \<noteq> None) =
        (\<lambda>c. comp_type c = Led \<and> find (led_link esp c) conns \<noteq> None)"
    by (auto simp: led_binding_def)
  then show ?thesis
    by (simp add: List.map_filter_def bound_leds_def comp_def)
qed

lemma bound_leds_mset:
  assumes "mset conns' = mset conns"
  shows "bound_leds esp cs conns' = bound_leds esp cs conns"
proof -
  have "set conns' = set conns"
    using assms by (rule mset_eq_setD)
  then show ?thesis
    by (simp add: bound_leds_def find_None_iff)
qed

lemma filter_forEach_idx_none:
  "(\<And>i x. \<not> P (f i x)) \<Longrightarrow> filter P (forEach_idx f xs) = []"
  by (simp add: forEach_idx_def filter_empty_conv split_def)

lemma show_nat_Suc_Suc_0: "show_nat (Suc (Suc 0)) = ''2''"
  by (simp add: show_nat.simps digit_char_def)

lemma led_defines_two:
  assumes "fst (resolve esp cs conns) = [(a, pA), (b, pB)]"
  shows "filter (prefix ''#define LED_PIN_'') (codeLines esp cs conns) =
           [''#define LED_PIN_1 '' @ pA, ''#define LED_PIN_2 '' @ pB]"
  by (simp add: codeLines_def Let_def assms pinDefinitions_def setupCode_def loopBody_def
      forEach_idx_pair led_define_def pot_define_def show_nat_Suc_0 show_nat_Suc_Suc_0
      filter_forEach_idx_none header_line_def read_pot_comment_def)

section \<open>C5: the order of the bound LEDs\<close>

text \<open>
  Claim C5. The store holds a controller, and its bound LEDs are, in creation order,
  \<open>A\<close> then \<open>B\<close>; every connection that joins the anode of \<open>A\<close> and the controller
  ends at a controller pin named \<open>pA\<close>, and likewise \<open>pB\<close> for \<open>B\<close>. Then for
  every reordering \<open>conns'\<close> of the connection list, the LED pin constants of the
  generated code are \<open>#define LED_PIN_1 pA\<close> and \<open>#define LED_PIN_2 pB\<close>, in this
  order and no others.
\<close>

theorem binding_order_stable:
  assumes esp: "find is_esp cs = Some esp"
    and bound: "bound_leds esp cs conns = [A, B]"
    and pinA: "\<forall>k\<in>set conns. led_link esp A k \<longrightarrow> pinName (espPin esp k) = pA"
    and pinB: "\<forall>k\<in>set conns. led_link esp B k \<longrightarrow> pinName (espPin esp k) = pB"
    and reordered: "mset conns' = mset conns"
  shows "fst (resolve esp cs conns') = [(comp_id A, pA), (comp_id B, pB)] \<and>
         filter (prefix ''#define LED_PIN_'') (codeLines esp cs conns') =
           [''#define LED_PIN_1 '' @ pA, ''#define LED_PIN_2 '' @ pB] \<and>
         generateCode cs conns' = join_lines (codeLines esp cs conns')"
proof -
  have sets: "set conns' = set conns"
    using reordered by (rule mset_eq_setD)
  have bound': "bound_leds esp cs conns' = [A, B]"
    using bound by (simp add: bound_leds_mset [OF reordered])
  have "A \<in> set (bound_leds esp cs conns')" "B \<in> set (bound_leds esp cs conns')"
    by (simp_all add: bound')
  then have A: "comp_type A = Led" "\<exists>k\<in>set conns'. led_link esp A k"
    and B: "comp_type B = Led" "\<exists>k\<in>set conns'. led_link esp B k"
    by (auto simp: bound_leds_def find_None_iff)
  have bA: "led_binding esp conns' A = Some (comp_id A, pA)"
    using A pinA by (intro led_binding_pin) (simp_all add: sets)
  have bB: "led_binding esp conns' B = Some (comp_id B, pB)"
    using B pinB by (intro led_binding_pin) (simp_all add: sets)
  have leds: "fst (resolve esp cs conns') = [(comp_id A, pA), (comp_id B, pB)]"
    by (simp add: resolve_eq map_filter_bound_leds bound' bA bB)
  have code: "generateCode cs conns' = join_lines (codeLines esp cs conns')"
    by (simp add: generateCode_def esp)
  from leds led_defines_two [OF leds] code show ?thesis
    by (intro conjI)
qed

subsection \<open>Two LEDs wired in reverse order\<close>

lemma two_led_esp: "find is_esp two_led_components = Some (newComponent Esp8266 10)"
  by (simp add: two_led_components_def is_esp_def newComponent_def)

lemma two_led_bound:
  "bound_leds (newComponent Esp8266 10) two_led_components two_led_connections =
     [newComponent Led 20, newComponent Led 30]"
  by (simp add: bound_leds_def two_led_components_def two_led_connections_def led_link_def
      newComponent_def type_name_def show_nat.simps digit_char_def)

lemma two_led_pin_A:
  "\<forall>k\<in>set two_led_connections.
     led_link (newComponent Esp8266 10) (newComponent Led 20) k \<longrightarrow>
     pinName (espPin (newComponent Esp8266 10) k) = ''D3''"
  by (simp add: two_led_connections_def led_link_def espPin_def pinName_def
      newComponent_def type_name_def show_nat.simps digit_char_def)

lemma two_led_pin_B:
  "\<forall>k\<in>set two_led_connections.
     led_link (newComponent Esp8266 10) (newComponent Led 30) k \<longrightarrow>
     pinName (espPin (newComponent Esp8266 10) k) = ''D5''"
  by (simp add: two_led_connections_def led_link_def espPin_def pinName_def
      newComponent_def type_name_def show_nat.simps digit_char_def)

theorem binding_order_stable_witness:
  "filter (prefix ''#define LED_PIN_'')
     (codeLines (newComponent Esp8266 10) two_led_components two_led_connections) =
     [''#define LED_PIN_1 D3'', ''#define LED_PIN_2 D5''] \<and>
   filter (prefix ''#define LED_PIN_'')
     (codeLines (newComponent Esp8266 10) two_led_components (rev two_led_connections)) =
     [''#define LED_PIN_1 D3'', ''#define LED_PIN_2 D5'']"
proof -
  have same: "mset two_led_connections = mset two_led_connections"
    by simp
  have reversed: "mset (rev two_led_connections) = mset two_led_connections"
    by simp
  show ?thesis
    using binding_order_stable [OF two_led_esp two_led_bound two_led_pin_A two_led_pin_B same]
          binding_order_stable [OF two_led_esp two_led_bound two_led_pin_A two_led_pin_B reversed]
    by simp
qed

section \<open>Auxiliary facts: the pin constants by position\<close>

lemma map_filter_bound_pots:
  "List.map_filter (pot_binding esp conns) cs =
     map (\<lambda>c. the (pot_binding esp conns c)) (bound_pots esp cs conns)"
proof -
  have "(\<lambda>c. pot_binding esp conns c \<noteq> None) =
        (\<lambda>c. comp_type c = Potentiometer \<and> find (pot_link esp c) conns \<noteq> None)"
    by (auto simp: pot_binding_def)
  then show ?thesis
    by (simp add: List.map_filter_def bound_pots_def comp_def)
qed

lemma pinName_table:
  "\<forall>p\<in>set (esp8266Pins_left @ esp8266Pins_right). pinName (pl_id p) = pl_label p"
  by (simp add: esp8266Pins_left_def esp8266Pins_right_def pinName_def)

lemma codeLines_nth_definition:
  assumes "i < length (pinDefinitions (fst (resolve esp cs conns)) (snd (resolve esp cs conns)))"
  shows "codeLines esp cs conns ! (2 + i) =
         pinDefinitions (fst (resolve esp cs conns)) (snd (resolve esp cs conns)) ! i"
proof -
  define defs where "defs = pinDefinitions (fst (resolve esp cs conns)) (snd (resolve esp cs conns))"
  have ne: "defs \<noteq> []"
    using assms by (auto simp: defs_def)
  have "\<exists>rest. codeLines esp cs conns = [header_line, ''''] @ defs @ rest"
    unfolding codeLines_def Let_def defs_def [symmetric]
    using ne by simp
  then obtain rest where "codeLines esp cs conns = [header_line, ''''] @ defs @ rest"
    by blast
  then show ?thesis
    using assms by (simp add: defs_def [symmetric] nth_append)
qed

section \<open>C6: the emitted pin name is the logical one\<close>

text \<open>
  Claim C6. The store holds a controller, and \<open>p\<close> is a pin of the controller's pin
  table. The normalized name of \<open>p\<close>'s id is \<open>p\<close>'s label, so the physical occurrences
  of one logical name normalize alike (\<open>GND_L1\<close>, \<open>GND_L2\<close>, \<open>GND_R1\<close>, \<open>GND_R2\<close> all
  to \<open>GND\<close>). The \<open>i\<close>-th bound LED, when the connection that binds it ends at \<open>p\<close>,
  gets the line \<open>#define LED_PIN_(i+1) label\<close> among the pin constants of the
  generated code, and the \<open>j\<close>-th bound potentiometer the line
  \<open>#define POT_PIN_(j+1) label\<close>, after those of the LEDs.
\<close>

theorem emitted_pin_name_normalized:
  assumes esp: "find is_esp cs = Some esp"
    and pin: "p \<in> set (esp8266Pins_left @ esp8266Pins_right)"
  shows "pinName (pl_id p) = pl_label p \<and>
         generateCode cs conns = join_lines (codeLines esp cs conns) \<and>
         (\<forall>i k. i < length (bound_leds esp cs conns) \<and>
                find (led_link esp (bound_leds esp cs conns ! i)) conns = Some k \<and>
                espPin esp k = pl_id p \<longrightarrow>
                codeLines esp cs conns ! (2 + i) =
                  ''#define LED_PIN_'' @ show_nat (i + 1) @ '' '' @ pl_label p) \<and>
         (\<forall>j k. j < length (bound_pots esp cs conns) \<and>
                find (pot_link esp (bound_pots esp cs conns ! j)) conns = Some k \<and>
                espPin esp k = pl_id p \<longrightarrow>
                codeLines esp cs conns ! (2 + length (bound_leds esp cs conns) + j) =
                  ''#define POT_PIN_'' @ show_nat (j + 1) @ '' '' @ pl_label p)"
proof -
  define leds where "leds = fst (resolve esp cs conns)"
  define pots where "pots = snd (resolve esp cs conns)"
  have name: "pinName (pl_id p) = pl_label p"
    using pin pinName_table by blast
  have code: "generateCode cs conns = join_lines (codeLines esp cs conns)"
    by (simp add: generateCode_def esp)
  have leds_eq: "leds = map (\<lambda>c. the (led_binding esp conns c)) (bound_leds esp cs conns)"
    by (simp add: leds_def resolve_eq map_filter_bound_leds)
  have pots_eq: "pots = map (\<lambda>c. the (pot_binding esp conns c)) (bound_pots esp cs conns)"
    by (simp add: pots_def resolve_eq map_filter_bound_pots)
  have len: "length (pinDefinitions leds pots) =
      length (bound_leds esp cs conns) + length (bound_pots esp cs conns)"
    by (simp add: pinDefinitions_def leds_eq pots_eq)
  have led_line: "codeLines esp cs conns ! (2 + i) =
      ''#define LED_PIN_'' @ show_nat (i + 1) @ '' '' @ pl_label p"
    if i: "i < length (bound_leds esp cs conns)"
      and k: "find (led_link esp (bound_leds esp cs conns ! i)) conns = Some k"
      and e: "espPin esp k = pl_id p" for i k
  proof -
    have "bound_leds esp cs conns ! i \<in> set (bound_leds esp cs conns)"
      using i by simp
    then have "comp_type (bound_leds esp cs conns ! i) = Led"
      by (simp add: bound_leds_def)
    then have "snd (leds ! i) = pl_label p"
      using i k e name by (simp add: leds_eq led_binding_def)
    moreover have "codeLines esp cs conns ! (2 + i) = pinDefinitions leds pots ! i"
      unfolding leds_def pots_def
      by (rule codeLines_nth_definition) (use i len in \<open>simp add: leds_def pots_def\<close>)
    moreover have "pinDefinitions leds pots ! i = led_define i (leds ! i)"
      using i by (simp add: pinDefinitions_def nth_append nth_forEach_idx leds_eq)
    ultimately show ?thesis
      by (simp add: led_define_def)
  qed
  have pot_line: "codeLines esp cs conns ! (2 + length (bound_leds esp cs conns) + j) =
      ''#define POT_PIN_'' @ show_nat (j + 1) @ '' '' @ pl_label p"
    if j: "j < length (bound_pots esp cs conns)"
      and k: "find (pot_link esp (bound_pots esp cs conns ! j)) conns = Some k"
      and e: "espPin esp k = pl_id p" for j k
  proof -
    have "bound_pots esp cs conns ! j \<in> set (bound_pots esp cs conns)"
      using j by simp
    then have "comp_type (bound_pots esp cs conns ! j) = Potentiometer"
      by (simp add: bound_pots_def)
    then have "snd (pots ! j) = pl_label p"
      using j k e name by (simp add: pots_eq pot_binding_def)
    moreover have "codeLines esp cs conns ! (2 + (length (bound_leds esp cs conns) + j)) =
        pinDefinitions leds pots ! (length (bound_leds esp cs conns) + j)"
      unfolding leds_def pots_def
      by (rule codeLines_nth_definition) (use j len in \<open>simp add: leds_def pots_def\<close>)
    moreover have "pinDefinitions leds pots ! (length (bound_leds esp cs conns) + j) =
        pot_define j (pots ! j)"
      using j by (simp add: pinDefinitions_def nth_append nth_forEach_idx leds_eq pots_eq)
    ultimately show ?thesis
      by (simp add: pot_define_def add.assoc)
  qed
  from name code led_line pot_line show ?thesis
    by blast
qed

subsection \<open>Bindings to two occurrences of GND\<close>

lemma gnd_esp: "find is_esp gnd_components = Some (newComponent Esp8266 10)"
  by (simp add: gnd_components_def is_esp_def newComponent_def)

lemma gnd_bound_leds:
  "bound_leds (newComponent Esp8266 10) gnd_components gnd_connections = [newComponent Led 20]"
  by (simp add: bound_leds_def gnd_components_def gnd_connections_def led_link_def
      newComponent_def type_name_def show_nat.simps digit_char_def)

lemma gnd_bound_pots:
  "bound_pots (newComponent Esp8266 10) gnd_components gnd_connections =
     [newComponent Potentiometer 40]"
  by (simp add: bound_pots_def gnd_components_def gnd_connections_def pot_link_def
      newComponent_def type_name_def show_nat.simps digit_char_def)

lemma gnd_led_found:
  "find (led_link (newComponent Esp8266 10) (newComponent Led 20)) gnd_connections =
     Some (gnd_connections ! 0)"
  by (simp add: gnd_connections_def led_link_def
      newComponent_def type_name_def show_nat.simps digit_char_def)

lemma gnd_pot_found:
  "find (pot_link (newComponent Esp8266 10) (newComponent Potentiometer 40)) gnd_connections =
     Some (gnd_connections ! 1)"
  by (simp add: gnd_connections_def pot_link_def
      newComponent_def type_name_def show_nat.simps digit_char_def)

lemma gnd_pins:
  "espPin (newComponent Esp8266 10) (gnd_connections ! 0) = ''GND_L1''"
  "espPin (newComponent Esp8266 10) (gnd_connections ! 1) = ''GND_R2''"
  by (simp_all add: gnd_connections_def espPin_def
      newComponent_def type_name_def show_nat.simps digit_char_def)

theorem emitted_pin_name_normalized_witness:
  "codeLines (newComponent Esp8266 10) gnd_components gnd_connections ! 2 =
     ''#define LED_PIN_1 GND'' \<and>
   codeLines (newComponent Esp8266 10) gnd_components gnd_connections ! 3 =
     ''#define POT_PIN_1 GND''"
proof -
  have l1: "\<lparr>pl_id = ''GND_L1'', pl_label = ''GND'', pl_offset = 4\<rparr>
              \<in> set (esp8266Pins_left @ esp8266Pins_right)"
    by (simp add: esp8266Pins_left_def)
  have r2: "\<lparr>pl_id = ''GND_R2'', pl_label = ''GND'', pl_offset = 13\<rparr>
              \<in> set (esp8266Pins_left @ esp8266Pins_right)"
    by (simp add: esp8266Pins_right_def)
  have led: "codeLines (newComponent Esp8266 10) gnd_components gnd_connections ! (2 + 0) =
      ''#define LED_PIN_'' @ show_nat (0 + 1) @ '' '' @ ''GND''"
    using emitted_pin_name_normalized [OF gnd_esp l1, of gnd_connections]
      gnd_led_found gnd_pins
    by (simp add: gnd_bound_leds)
  have pot: "codeLines (newComponent Esp8266 10) gnd_components gnd_connections ! (2 + 1 + 0) =
      ''#define POT_PIN_'' @ show_nat (0 + 1) @ '' '' @ ''GND''"
    using emitted_pin_name_normalized [OF gnd_esp r2, of gnd_connections]
      gnd_pot_found gnd_pins
    by (simp add: gnd_bound_leds gnd_bound_pots)
  show ?thesis
    using led pot by (simp add: show_nat_Suc_0)
qed

section \<open>Auxiliary facts: the scan for a potentiometer\<close>

lemma pot_scan_step_eq:
  "pot_scan_step cs acc k =
     (if potToEsp cs k then (True, value_or_512 (potComp cs k)) else acc)"
  unfolding pot_scan_step_def potToEsp_def potComp_def typeOfId_def Let_def
  by (rule refl)

lemma pot_scan_foldl:
  assumes "\<forall>k\<in>set conns. potToEsp cs k \<longrightarrow> value_or_512 (potComp cs k) = w"
  shows "foldl (pot_scan_step cs) acc conns =
           (if \<exists>k\<in>set conns. potToEsp cs k then (True, w) else acc)"
  using assms
proof (induction conns arbitrary: acc)
  case Nil
  show ?case by simp
next
  case (Cons k conns)
  define acc' where "acc' = pot_scan_step cs acc k"
  have "foldl (pot_scan_step cs) acc (k # conns) = foldl (pot_scan_step cs) acc' conns"
    by (simp add: acc'_def)
  also have "\<dots> = (if \<exists>k\<in>set conns. potToEsp cs k then (True, w) else acc')"
    using Cons.prems by (intro Cons.IH) simp
  also have "\<dots> = (if \<exists>k\<in>set (k # conns). potToEsp cs k then (True, w) else acc)"
    using Cons.prems unfolding acc'_def pot_scan_step_eq [of cs acc k] by auto
  finally show ?case .
qed

lemma brightness_with_potentiometer:
  assumes led: "l \<in> set cs" "comp_type l = Led" "\<exists>k\<in>set conns. ledToEsp cs l k"
    and link: "\<exists>k\<in>set conns. potToEsp cs k"
    and pot: "\<forall>k\<in>set conns. potToEsp cs k \<longrightarrow> value_or_512 (potComp cs k) = w"
  shows "simulation True cs conns (comp_id l) = Some (of_int w / 1023)"
proof -
  have "pot_scan cs conns = (True, w)"
    using link by (simp add: pot_scan_def pot_scan_foldl [OF pot])
  then have b: "brightness_of cs conns = of_int w / 1023"
    by (simp add: brightness_of_def)
  have "find (ledToEsp cs l) conns \<noteq> None"
    using led(3) by (auto simp: find_None_iff)
  with led(1,2) have "\<exists>c\<in>set cs. comp_type c = Led \<and> comp_id c = comp_id l \<and>
      find (ledToEsp cs c) conns \<noteq> None"
    by blast
  then show ?thesis
    by (simp add: simulation_def updateLedStates_eq b)
qed

lemma value_or_512_config:
  "value_or_512 (Some c) =
     (case config c of None \<Rightarrow> 512
      | Some cfg \<Rightarrow> (case cfg_value cfg of None \<Rightarrow> 512 | Some v \<Rightarrow> if v = 0 then 512 else v))"
  by (simp add: value_or_512_def)

lemma bound_state_running: "st_isRunning bound_state"
  by (simp add: bound_state_def run_def initial_state_def click_add_def addComponent_def
      handlePinClick_def toggleRun_def setIsRunning_def effect_simulation_def
      setComponents_def setConnections_def effect_generateCode_def)

lemma bound_state_slider_components:
  "st_components (updatePotValue ''potentiometer_40'' v bound_state) =
     [newComponent Esp8266 10, newComponent Led 20,
      (newComponent Potentiometer 40)\<lparr>config := Some \<lparr>cfg_color = None, cfg_value = Some v\<rparr>\<rparr>]"
proof -
  have "st_components (updatePotValue ''potentiometer_40'' v bound_state) =
      updatePotValue_map ''potentiometer_40'' v (st_components bound_state)"
    by (simp add: updatePotValue_def)
  also have "\<dots> = [newComponent Esp8266 10, newComponent Led 20,
      (newComponent Potentiometer 40)\<lparr>config := Some \<lparr>cfg_color = None, cfg_value = Some v\<rparr>\<rparr>]"
    by (simp add: bound_state_components updatePotValue_map_def newComponent_def type_name_def
        show_nat.simps digit_char_def spread_value_def initial_config_def)
  finally show ?thesis .
qed

lemma bound_state_slider_connections:
  "st_connections (updatePotValue ''potentiometer_40'' v bound_state) = st_connections bound_state"
  by (simp add: updatePotValue_def)

lemma bound_state_slider_ledStates:
  "st_ledStates (updatePotValue ''potentiometer_40'' v bound_state) =
     simulation True (st_components (updatePotValue ''potentiometer_40'' v bound_state))
       (st_connections bound_state)"
  using bound_state_running
  by (simp add: updatePotValue_def setComponents_def effect_simulation_def
      effect_generateCode_def)

lemmas bound_state_slider =
  bound_state_slider_components bound_state_slider_connections bound_state_slider_ledStates

lemma bound_state_brightness:
  "st_ledStates (updatePotValue ''potentiometer_40'' v bound_state) ''led_20'' =
     Some (of_int (if v = 0 then 512 else v) / 1023)"
proof -
  define cs where "cs = st_components (updatePotValue ''potentiometer_40'' v bound_state)"
  define conns where "conns = st_connections bound_state"
  have cs: "cs = [newComponent Esp8266 10, newComponent Led 20,
      (newComponent Potentiometer 40)\<lparr>config := Some \<lparr>cfg_color = None, cfg_value = Some v\<rparr>\<rparr>]"
    by (simp add: cs_def bound_state_slider)
  have ty: "typeOfId cs ''esp8266_10'' = Some Esp8266" "typeOfId cs ''led_20'' = Some Led"
    "typeOfId cs ''potentiometer_40'' = Some Potentiometer"
    by (simp_all add: cs typeOfId_def newComponent_def type_name_def show_nat.simps digit_char_def)
  have led: "newComponent Led 20 \<in> set cs" "comp_type (newComponent Led 20) = Led"
    by (simp_all add: cs newComponent_def)
  have touch: "\<exists>k\<in>set conns. ledToEsp cs (newComponent Led 20) k"
    by (simp add: conns_def bound_state_connections ledToEsp_def ty)
       (simp add: newComponent_def type_name_def show_nat.simps digit_char_def)
  have link: "\<exists>k\<in>set conns. potToEsp cs k"
    by (simp add: conns_def bound_state_connections potToEsp_def ty)
  have pot: "\<forall>k\<in>set conns. potToEsp cs k \<longrightarrow>
      value_or_512 (potComp cs k) = (if v = 0 then 512 else v)"
    by (simp add: conns_def bound_state_connections potToEsp_def potComp_def ty)
       (simp add: cs value_or_512_def newComponent_def type_name_def show_nat.simps digit_char_def)
  have "simulation True cs conns (comp_id (newComponent Led 20)) =
      Some (of_int (if v = 0 then 512 else v) / 1023)"
    using led touch link pot by (rule brightness_with_potentiometer)
  moreover have "comp_id (newComponent Led 20) = ''led_20''"
    by (simp add: newComponent_def type_name_def show_nat.simps digit_char_def)
  ultimately show ?thesis
    by (simp add: bound_state_slider cs_def conns_def)
qed

section \<open>C2: the brightness of a LED when a potentiometer is connected\<close>

text \<open>
  Claim C2 holds for the readings 1 to 1023 and fails for the reading 0. In
  \<open>bound_state\<close> the simulation runs, the LED is connected to the controller and
  so is the potentiometer. Moving the slider to 700 gives the LED the brightness
  \<open>700 / 1023\<close>; moving it to 0 stores the config value 0 and gives the LED the
  brightness \<open>512 / 1023\<close>, not \<open>0 / 1023\<close>: line 684 reads the value as
  \<open>potComp?.config?.value || 512\<close>, and 0 is falsy.
\<close>

theorem zero_reading_brightness:
  "map_option cfg_value (config (st_components (updatePotValue ''potentiometer_40'' 0 bound_state) ! 2)) =
     Some (Some 0) \<and>
   st_ledStates (updatePotValue ''potentiometer_40'' 0 bound_state) ''led_20'' = Some (512 / 1023) \<and>
   st_ledStates (updatePotValue ''potentiometer_40'' 0 bound_state) ''led_20'' \<noteq> Some (0 / 1023) \<and>
   st_ledStates (updatePotValue ''potentiometer_40'' 700 bound_state) ''led_20'' = Some (700 / 1023)"
proof -
  have "st_components (updatePotValue ''potentiometer_40'' 0 bound_state) ! 2 =
      (newComponent Potentiometer 40)\<lparr>config := Some \<lparr>cfg_color = None, cfg_value = Some 0\<rparr>\<rparr>"
    by (simp add: bound_state_slider_components)
  then have stored: "map_option cfg_value
      (config (st_components (updatePotValue ''potentiometer_40'' 0 bound_state) ! 2)) =
      Some (Some 0)"
    by simp
  show ?thesis
    using stored bound_state_brightness [of 0] bound_state_brightness [of 700]
    by simp
qed

end
